theory Spec2Isabelle
  imports Main "HOL-Library.Word"
begin

section \<open>Data model of pkg/k3s/workload_cluster_etcd.go\<close>

text \<open>
  The two annotation keys of the decommission handshake, as the source declares them.
\<close>

definition EtcdRemoveAnnotation :: string where
  "EtcdRemoveAnnotation = ''etcd.k3s.cattle.io/remove''"

definition EtcdRemovedNodeAnnotation :: string where
  "EtcdRemovedNodeAnnotation = ''etcd.k3s.cattle.io/removed-node-name''"

text \<open>
  A \<open>corev1.Node\<close>, reduced to the two fields the file reads: its name and its annotation
  map. A Go map is either nil or allocated; \<open>None\<close> is the nil map, which reads as empty
  and panics on assignment.
\<close>

record Node =
  node_Name :: string
  node_Annotations :: "(string \<rightharpoonup> string) option"

text \<open>
  A \<open>clusterv1.Machine\<close>, reduced to \<open>Status.NodeRef\<close>: \<open>None\<close> is the nil reference,
  \<open>Some n\<close> a reference whose \<open>Name\<close> is \<open>n\<close>. A \<open>*Machine\<close> argument is a
  \<open>Machine option\<close>, \<open>None\<close> being the nil pointer.
\<close>

record Machine =
  machine_NodeRef :: "string option"

text \<open>An \<open>etcd.Member\<close>: the numeric id and the advertised name.\<close>

record Member =
  member_ID :: "64 word"
  member_Name :: string

text \<open>
  An \<open>etcd.Client\<close>: the peer it is connected to and the \<open>LeaderID\<close> it reports.
\<close>

record Client =
  client_Endpoint :: string
  LeaderID :: "64 word"

text \<open>The patch helper of \<open>patch.NewHelper\<close>: it holds the object as it was at creation.\<close>

record PatchHelper =
  helper_before :: Node

text \<open>
  Go error values. \<open>ErrControlPlaneMinNodes\<close> is the package's sentinel for the quorum
  floor; \<open>ErrNew\<close> is \<open>errors.New\<close>, \<open>ErrErrorf\<close> is \<open>errors.Errorf\<close> with its format
  and arguments kept apart, \<open>ErrWrap\<close> is \<open>errors.Wrap\<close>, \<open>ErrAggregate\<close> is the
  aggregate of \<open>kerrors.NewAggregate\<close>, and \<open>ErrCollaborator\<close> is any error value handed
  back by a collaborator.
\<close>

datatype error =
    ErrControlPlaneMinNodes
  | ErrNew string
  | ErrErrorf string "string list"
  | ErrWrap error string
  | ErrCollaborator string
  | ErrAggregate "error list"

text \<open>A call either returns its results or panics.\<close>

datatype 'a outcome = Returns 'a | Panics string

section \<open>Collaborators\<close>

text \<open>
  Every call the file makes on a collaborator is recorded, in order, with its arguments.
\<close>

datatype Call =
    GetControlPlaneNodes
  | ForFirstAvailableNode "string list"
  | ForLeader "string list"
  | ClientMembers Client
  | ClientRemoveMember Client "64 word"
  | ClientMoveLeader Client "64 word"
  | ClientClose Client
  | PatchNewHelper Node
  | PatchPatch PatchHelper Node

fun isEtcdCall :: "Call \<Rightarrow> bool" where
  "isEtcdCall GetControlPlaneNodes = False"
| "isEtcdCall (PatchNewHelper n) = False"
| "isEtcdCall (PatchPatch h n) = False"
| "isEtcdCall c = True"

fun isRemoveMember :: "Call \<Rightarrow> bool" where
  "isRemoveMember (ClientRemoveMember c i) = True"
| "isRemoveMember c = False"

fun isMoveLeader :: "Call \<Rightarrow> bool" where
  "isMoveLeader (ClientMoveLeader c i) = True"
| "isMoveLeader c = False"

fun isPatch :: "Call \<Rightarrow> bool" where
  "isPatch (PatchPatch h n) = True"
| "isPatch c = False"

text \<open>
  The collaborators are injected: the control-plane node lister, the etcd client generator
  (\<open>forFirstAvailableNode\<close>, \<open>forLeader\<close>), the etcd client (\<open>Members\<close>,
  \<open>RemoveMember\<close>, \<open>MoveLeader\<close>, \<open>Close\<close>), the patch helper (\<open>NewHelper\<close>,
  \<open>Patch\<close>) and \<open>etcdutil.NodeNameFromMember\<close>. They are parameters of the model: an
  arbitrary state machine over a state \<open>'s\<close>, each call returning its Go results (an
  \<open>error + 'a\<close> for \<open>(value, error)\<close>, an \<open>error option\<close> for \<open>error\<close>) and the next
  state.
\<close>

record 's World =
  getControlPlaneNodes :: "'s \<Rightarrow> (error + Node list) \<times> 's"
  forFirstAvailableNode :: "string list \<Rightarrow> 's \<Rightarrow> (error + Client) \<times> 's"
  forLeader :: "string list \<Rightarrow> 's \<Rightarrow> (error + Client) \<times> 's"
  Members :: "Client \<Rightarrow> 's \<Rightarrow> (error + Member list) \<times> 's"
  RemoveMember :: "Client \<Rightarrow> 64 word \<Rightarrow> 's \<Rightarrow> error option \<times> 's"
  MoveLeader :: "Client \<Rightarrow> 64 word \<Rightarrow> 's \<Rightarrow> error option \<times> 's"
  Close :: "Client \<Rightarrow> 's \<Rightarrow> 's"
  NewHelper :: "Node \<Rightarrow> 's \<Rightarrow> (error + PatchHelper) \<times> 's"
  Patch :: "PatchHelper \<Rightarrow> Node \<Rightarrow> 's \<Rightarrow> error option \<times> 's"
  NodeNameFromMember :: "Member \<Rightarrow> string"

text \<open>A run threads the collaborators' state and the calls made so far.\<close>

type_synonym 's run = "'s \<times> Call list"

definition call_getControlPlaneNodes :: "'s World \<Rightarrow> 's run \<Rightarrow> (error + Node list) \<times> 's run" where
  "call_getControlPlaneNodes w r =
     (case getControlPlaneNodes w (fst r) of
        (res, s') \<Rightarrow> (res, (s', snd r @ [GetControlPlaneNodes])))"

definition call_forFirstAvailableNode ::
  "'s World \<Rightarrow> string list \<Rightarrow> 's run \<Rightarrow> (error + Client) \<times> 's run" where
  "call_forFirstAvailableNode w nodeNames r =
     (case forFirstAvailableNode w nodeNames (fst r) of
        (res, s') \<Rightarrow> (res, (s', snd r @ [ForFirstAvailableNode nodeNames])))"

definition call_forLeader ::
  "'s World \<Rightarrow> string list \<Rightarrow> 's run \<Rightarrow> (error + Client) \<times> 's run" where
  "call_forLeader w nodeNames r =
     (case forLeader w nodeNames (fst r) of
        (res, s') \<Rightarrow> (res, (s', snd r @ [ForLeader nodeNames])))"

definition call_Members :: "'s World \<Rightarrow> Client \<Rightarrow> 's run \<Rightarrow> (error + Member list) \<times> 's run" where
  "call_Members w c r =
     (case Members w c (fst r) of
        (res, s') \<Rightarrow> (res, (s', snd r @ [ClientMembers c])))"

definition call_RemoveMember ::
  "'s World \<Rightarrow> Client \<Rightarrow> 64 word \<Rightarrow> 's run \<Rightarrow> error option \<times> 's run" where
  "call_RemoveMember w c i r =
     (case RemoveMember w c i (fst r) of
        (res, s') \<Rightarrow> (res, (s', snd r @ [ClientRemoveMember c i])))"

definition call_MoveLeader ::
  "'s World \<Rightarrow> Client \<Rightarrow> 64 word \<Rightarrow> 's run \<Rightarrow> error option \<times> 's run" where
  "call_MoveLeader w c i r =
     (case MoveLeader w c i (fst r) of
        (res, s') \<Rightarrow> (res, (s', snd r @ [ClientMoveLeader c i])))"

definition call_Close :: "'s World \<Rightarrow> Client \<Rightarrow> 's run \<Rightarrow> 's run" where
  "call_Close w c r = (Close w c (fst r), snd r @ [ClientClose c])"

definition call_NewHelper :: "'s World \<Rightarrow> Node \<Rightarrow> 's run \<Rightarrow> (error + PatchHelper) \<times> 's run" where
  "call_NewHelper w n r =
     (case NewHelper w n (fst r) of
        (res, s') \<Rightarrow> (res, (s', snd r @ [PatchNewHelper n])))"

definition call_Patch ::
  "'s World \<Rightarrow> PatchHelper \<Rightarrow> Node \<Rightarrow> 's run \<Rightarrow> error option \<times> 's run" where
  "call_Patch w h n r =
     (case Patch w h n (fst r) of
        (res, s') \<Rightarrow> (res, (s', snd r @ [PatchPatch h n])))"

text \<open>
  Modelled from the spec: \<open>etcdutil.MemberForName\<close> is not among the sources. The spec has
  it "find the member whose derived name equals the target"; nil (\<open>None\<close>) when there is
  none.
\<close>

definition MemberForName :: "'s World \<Rightarrow> Member list \<Rightarrow> string \<Rightarrow> Member option" where
  "MemberForName w members name = find (\<lambda>m. NodeNameFromMember w m = name) members"

text \<open>
  \<open>kerrors.NewAggregate\<close>: nil for an empty list, otherwise one error holding all of them.
  The lists built by this file hold no nil entry.
\<close>

definition NewAggregate :: "error list \<Rightarrow> error option" where
  "NewAggregate errlist = (if errlist = [] then None else Some (ErrAggregate errlist))"

section \<open>The operations\<close>

subsection \<open>removeMemberForNonExistingNode\<close>

text \<open>The loop of lines 121-126: the names of the listed Nodes other than the target.\<close>

definition remainingNodes :: "Node list \<Rightarrow> string \<Rightarrow> string list" where
  "remainingNodes items name = map node_Name (filter (\<lambda>n. node_Name n \<noteq> name) items)"

text \<open>
  \<open>defer etcdClient.Close()\<close> runs on every return after the client was acquired: each
  such branch ends in \<open>call_Close\<close>.
\<close>

definition removeMemberForNonExistingNode ::
  "'s World \<Rightarrow> string \<Rightarrow> 's run \<Rightarrow> error option \<times> 's run" where
  "removeMemberForNonExistingNode w name r0 =
     (case call_getControlPlaneNodes w r0 of
        (Inl err, r1) \<Rightarrow> (Some err, r1)
      | (Inr items, r1) \<Rightarrow>
          if length items < 2 then (Some ErrControlPlaneMinNodes, r1)
          else
            (case call_forFirstAvailableNode w (remainingNodes items name) r1 of
               (Inl err, r2) \<Rightarrow> (Some (ErrWrap err ''failed to create etcd client''), r2)
             | (Inr etcdClient, r2) \<Rightarrow>
                 (case call_Members w etcdClient r2 of
                    (Inl err, r3) \<Rightarrow>
                      (Some (ErrWrap err ''failed to list etcd members using etcd client''),
                       call_Close w etcdClient r3)
                  | (Inr members, r3) \<Rightarrow>
                      (case MemberForName w members name of
                         None \<Rightarrow> (None, call_Close w etcdClient r3)
                       | Some member \<Rightarrow>
                           (case call_RemoveMember w etcdClient (member_ID member) r3 of
                              (Some err, r4) \<Rightarrow>
                                (Some (ErrWrap err ''failed to remove member from etcd''),
                                 call_Close w etcdClient r4)
                            | (None, r4) \<Rightarrow> (None, call_Close w etcdClient r4))))))"

subsection \<open>ReconcileEtcdMembers\<close>

text \<open>
  The loop \<open>loopmembers\<close> of \<open>reconcileEtcdMember\<close> (lines 77-98), with its two
  accumulators \<open>removedMembers\<close> and \<open>errs\<close>. The inner loop over \<open>nodeNames\<close> only
  decides whether some entry equals \<open>curNodeName\<close>. The log line has no model.
\<close>

fun loopmembers ::
  "'s World \<Rightarrow> string list \<Rightarrow> Member list \<Rightarrow> string list \<Rightarrow> error list \<Rightarrow> 's run
     \<Rightarrow> (string list \<times> error list) \<times> 's run" where
  "loopmembers w nodeNames [] removedMembers errs r = ((removedMembers, errs), r)"
| "loopmembers w nodeNames (member # rest) removedMembers errs r =
     (let curNodeName = NodeNameFromMember w member in
      if curNodeName = [] then loopmembers w nodeNames rest removedMembers errs r
      else if curNodeName \<in> set nodeNames
        then loopmembers w nodeNames rest removedMembers errs r
      else
        (case removeMemberForNonExistingNode w curNodeName r of
           (Some err, r') \<Rightarrow>
             loopmembers w nodeNames rest (removedMembers @ [curNodeName]) (errs @ [err]) r'
         | (None, r') \<Rightarrow>
             loopmembers w nodeNames rest (removedMembers @ [curNodeName]) errs r'))"

text \<open>
  \<open>reconcileEtcdMember\<close>: the two early returns give nil slices, which append nothing;
  the first one happens before the \<open>defer\<close>, so no \<open>Close\<close> follows it.
\<close>

definition reconcileEtcdMember ::
  "'s World \<Rightarrow> string list \<Rightarrow> string \<Rightarrow> 's run \<Rightarrow> (string list \<times> error list) \<times> 's run" where
  "reconcileEtcdMember w nodeNames nodeName r0 =
     (case call_forFirstAvailableNode w [nodeName] r0 of
        (Inl err, r1) \<Rightarrow> (([], []), r1)
      | (Inr etcdClient, r1) \<Rightarrow>
          (case call_Members w etcdClient r1 of
             (Inl err, r2) \<Rightarrow> (([], []), call_Close w etcdClient r2)
           | (Inr members, r2) \<Rightarrow>
               (case loopmembers w nodeNames members [] [] r2 of
                  (res, r3) \<Rightarrow> (res, call_Close w etcdClient r3))))"

text \<open>
  The loop of \<open>ReconcileEtcdMembers\<close> (lines 49-53) over the node names still to visit;
  every visit is given the full \<open>nodeNames\<close>.
\<close>

fun reconcileLoop ::
  "'s World \<Rightarrow> string list \<Rightarrow> string list \<Rightarrow> string list \<Rightarrow> error list \<Rightarrow> 's run
     \<Rightarrow> (string list \<times> error list) \<times> 's run" where
  "reconcileLoop w nodeNames [] allRemovedMembers allErrs r = ((allRemovedMembers, allErrs), r)"
| "reconcileLoop w nodeNames (nodeName # rest) allRemovedMembers allErrs r =
     (case reconcileEtcdMember w nodeNames nodeName r of
        ((removedMembers, errs), r') \<Rightarrow>
          reconcileLoop w nodeNames rest (allRemovedMembers @ removedMembers) (allErrs @ errs) r')"

definition ReconcileEtcdMembers ::
  "'s World \<Rightarrow> string list \<Rightarrow> 's run \<Rightarrow> (string list \<times> error option) \<times> 's run" where
  "ReconcileEtcdMembers w nodeNames r =
     (case reconcileLoop w nodeNames nodeNames [] [] r of
        ((allRemovedMembers, allErrs), r') \<Rightarrow> ((allRemovedMembers, NewAggregate allErrs), r'))"

subsection \<open>removeMemberForNode and RemoveEtcdMemberForMachine\<close>

text \<open>
  The loop of lines 162-167: \<open>removingNode\<close> starts as the zero Node and is overwritten
  by every listed Node of the target name, so the last one stays.
\<close>

definition zeroNode :: Node where
  "zeroNode = \<lparr>node_Name = [], node_Annotations = None\<rparr>"

definition findRemovingNode :: "Node list \<Rightarrow> string \<Rightarrow> Node" where
  "findRemovingNode items name = foldl (\<lambda>removingNode n. if node_Name n = name then n else removingNode) zeroNode items"

text \<open>Reading a key of a Go map; the nil map has no key.\<close>

definition hasKey :: "(string \<rightharpoonup> string) option \<Rightarrow> string \<Rightarrow> bool" where
  "hasKey annotations k = (case annotations of None \<Rightarrow> False | Some m \<Rightarrow> m k \<noteq> None)"

text \<open>
  \<open>removeMemberForNode\<close>. The assignment \<open>annotations[EtcdRemoveAnnotation] = "true"\<close> of
  line 183 panics when \<open>annotations\<close> is the nil map; it comes after the patch helper was
  created.
\<close>

definition removeMemberForNode ::
  "'s World \<Rightarrow> string \<Rightarrow> 's run \<Rightarrow> (bool \<times> error option) outcome \<times> 's run" where
  "removeMemberForNode w name r0 =
     (case call_getControlPlaneNodes w r0 of
        (Inl err, r1) \<Rightarrow> (Returns (False, Some err), r1)
      | (Inr items, r1) \<Rightarrow>
          if length items < 2 then (Returns (False, Some ErrControlPlaneMinNodes), r1)
          else
            (let removingNode = findRemovingNode items name in
             if node_Name removingNode \<noteq> name
               then (Returns (False, Some (ErrNew (''node '' @ name @ '' not found''))), r1)
             else if hasKey (node_Annotations removingNode) EtcdRemovedNodeAnnotation
               then (Returns (True, None), r1)
             else
               (case call_NewHelper w removingNode r1 of
                  (Inl err, r2) \<Rightarrow>
                    (Returns (False, Some (ErrWrap err ''failed to create patch helper for node'')), r2)
                | (Inr patchHelper, r2) \<Rightarrow>
                    (case node_Annotations removingNode of
                       None \<Rightarrow> (Panics ''assignment to entry in nil map'', r2)
                     | Some annotations \<Rightarrow>
                         (case call_Patch w patchHelper
                                 (removingNode\<lparr>node_Annotations :=
                                    Some (annotations(EtcdRemoveAnnotation \<mapsto> ''true''))\<rparr>) r2 of
                            (Some err, r3) \<Rightarrow> (Returns (False, Some (ErrWrap err ''failed patch node'')), r3)
                          | (None, r3) \<Rightarrow> (Returns (False, None), r3))))))"

definition RemoveEtcdMemberForMachine ::
  "'s World \<Rightarrow> Machine option \<Rightarrow> 's run \<Rightarrow> (bool \<times> error option) outcome \<times> 's run" where
  "RemoveEtcdMemberForMachine w machine r =
     (case machine of
        None \<Rightarrow> (Returns (True, None), r)
      | Some m \<Rightarrow>
          (case machine_NodeRef m of
             None \<Rightarrow> (Returns (True, None), r)
           | Some name \<Rightarrow> removeMemberForNode w name r))"

subsection \<open>ForwardEtcdLeadership\<close>

definition ForwardEtcdLeadership ::
  "'s World \<Rightarrow> Machine option \<Rightarrow> Machine option \<Rightarrow> 's run \<Rightarrow> error option \<times> 's run" where
  "ForwardEtcdLeadership w machine leaderCandidate r0 =
     (case machine of
        None \<Rightarrow> (None, r0)
      | Some m \<Rightarrow>
     (case machine_NodeRef m of
        None \<Rightarrow> (None, r0)
      | Some machineNode \<Rightarrow>
     (case leaderCandidate of
        None \<Rightarrow> (Some (ErrNew ''leader candidate cannot be nil''), r0)
      | Some candidate \<Rightarrow>
     (case machine_NodeRef candidate of
        None \<Rightarrow> (Some (ErrNew ''leader has no node reference''), r0)
      | Some candidateNode \<Rightarrow>
     (case call_getControlPlaneNodes w r0 of
        (Inl err, r1) \<Rightarrow> (Some (ErrWrap err ''failed to list control plane nodes''), r1)
      | (Inr items, r1) \<Rightarrow>
     (case call_forLeader w (map node_Name items) r1 of
        (Inl err, r2) \<Rightarrow> (Some (ErrWrap err ''failed to create etcd client''), r2)
      | (Inr etcdClient, r2) \<Rightarrow>
     (case call_Members w etcdClient r2 of
        (Inl err, r3) \<Rightarrow>
          (Some (ErrWrap err ''failed to list etcd members using etcd client''),
           call_Close w etcdClient r3)
      | (Inr members, r3) \<Rightarrow>
     (case MemberForName w members machineNode of
        None \<Rightarrow> (None, call_Close w etcdClient r3)
      | Some currentMember \<Rightarrow>
          if member_ID currentMember \<noteq> LeaderID etcdClient
            then (None, call_Close w etcdClient r3)
          else
            (case MemberForName w members candidateNode of
               None \<Rightarrow>
                 (Some (ErrErrorf ''failed to get etcd member from node %q'' [candidateNode]),
                  call_Close w etcdClient r3)
             | Some nextLeader \<Rightarrow>
                 (case call_MoveLeader w etcdClient (member_ID nextLeader) r3 of
                    (Some err, r4) \<Rightarrow>
                      (Some (ErrWrap err ''failed to move leader''), call_Close w etcdClient r4)
                  | (None, r4) \<Rightarrow> (None, call_Close w etcdClient r4)))))))))))"

section \<open>Notions of the specification\<close>

text \<open>
  Following the spec's words (4.1, step 3): the orphaned members of a listing are those
  "with non-empty derived name that does not appear in the full node-name set". These are
  their derived names, in listing order.
\<close>

definition orphanedNames :: "'s World \<Rightarrow> string list \<Rightarrow> Member list \<Rightarrow> string list" where
  "orphanedNames w nodeNames members =
     filter (\<lambda>n. n \<noteq> [] \<and> n \<notin> set nodeNames) (map (NodeNameFromMember w) members)"

text \<open>
  Following the spec's words (pending-member protection): the same collaborators, except
  that members with an empty derived name are left out of every member listing.
\<close>

definition hidePending :: "'s World \<Rightarrow> 's World" where
  "hidePending w =
     w\<lparr>Members :=
         (\<lambda>c s. case Members w c s of
                  (Inl err, s') \<Rightarrow> (Inl err, s')
                | (Inr members, s') \<Rightarrow>
                    (Inr (filter (\<lambda>m. NodeNameFromMember w m \<noteq> []) members), s'))\<rparr>"

section \<open>An in-memory double of the collaborators\<close>

text \<open>
  A concrete world on which the operations can be run: an API server holding the
  control-plane Nodes, and one etcd cluster whose peers run on the nodes named in
  \<open>fake_reachable\<close>. Each failure the collaborators can report is switched on by a field.
  Its members advertise the name of their node, so the derived name is the member's name.
\<close>

record Fake =
  fake_nodes :: "Node list"
  fake_listErr :: "error option"
  fake_reachable :: "string list"
  fake_unhealthy :: "string list"
  fake_members :: "Member list"
  fake_leader :: "64 word"
  fake_removeErr :: "error option"
  fake_moveErr :: "error option"
  fake_helperErr :: "error option"
  fake_patchErr :: "error option"

definition fake_connect :: "string list \<Rightarrow> Fake \<Rightarrow> (error + Client) \<times> Fake" where
  "fake_connect nodeNames s =
     (case find (\<lambda>n. n \<in> set (fake_reachable s)) nodeNames of
        None \<Rightarrow> (Inl (ErrCollaborator ''could not establish a connection to any etcd node''), s)
      | Some n \<Rightarrow> (Inr \<lparr>client_Endpoint = n, LeaderID = fake_leader s\<rparr>, s))"

definition annotationsOf :: "Node \<Rightarrow> (string \<rightharpoonup> string)" where
  "annotationsOf n = (case node_Annotations n of None \<Rightarrow> Map.empty | Some m \<Rightarrow> m)"

text \<open>
  The patch sent is the difference between the helper's snapshot and the object handed to
  \<open>Patch\<close>; the server merges it into the Node it stores: a key whose value differs
  between the two takes the new value, every other key keeps the stored one.
\<close>

definition mergePatch :: "Node \<Rightarrow> Node \<Rightarrow> Node \<Rightarrow> Node" where
  "mergePatch snapshot modified stored =
     stored\<lparr>node_Annotations :=
       Some (\<lambda>k. if annotationsOf modified k = annotationsOf snapshot k
                  then annotationsOf stored k else annotationsOf modified k)\<rparr>"

definition fake_patch :: "PatchHelper \<Rightarrow> Node \<Rightarrow> Fake \<Rightarrow> error option \<times> Fake" where
  "fake_patch h n s =
     (case fake_patchErr s of
        Some e \<Rightarrow> (Some e, s)
      | None \<Rightarrow>
          (None, s\<lparr>fake_nodes :=
             map (\<lambda>stored. if node_Name stored = node_Name n
                             then mergePatch (helper_before h) n stored else stored)
                 (fake_nodes s)\<rparr>))"

definition fakeWorld :: "Fake World" where
  "fakeWorld =
     \<lparr>getControlPlaneNodes =
        (\<lambda>s. case fake_listErr s of Some e \<Rightarrow> (Inl e, s) | None \<Rightarrow> (Inr (fake_nodes s), s)),
      forFirstAvailableNode = fake_connect,
      forLeader = fake_connect,
      Members =
        (\<lambda>c s. if client_Endpoint c \<in> set (fake_unhealthy s)
                then (Inl (ErrCollaborator ''etcd member list failed''), s)
                else (Inr (fake_members s), s)),
      RemoveMember =
        (\<lambda>c i s. case fake_removeErr s of
                    Some e \<Rightarrow> (Some e, s)
                  | None \<Rightarrow> (None, s\<lparr>fake_members := filter (\<lambda>m. member_ID m \<noteq> i) (fake_members s)\<rparr>)),
      MoveLeader =
        (\<lambda>c i s. case fake_moveErr s of
                    Some e \<Rightarrow> (Some e, s)
                  | None \<Rightarrow> (None, s\<lparr>fake_leader := i\<rparr>)),
      Close = (\<lambda>c s. s),
      NewHelper =
        (\<lambda>n s. case fake_helperErr s of
                  Some e \<Rightarrow> (Inl e, s)
                | None \<Rightarrow> (Inr \<lparr>helper_before = n\<rparr>, s)),
      Patch = fake_patch,
      NodeNameFromMember = member_Name\<rparr>"

text \<open>Nodes and members used in the examples.\<close>

definition nodeA :: Node where
  "nodeA = \<lparr>node_Name = ''a'', node_Annotations = Some [''kubernetes.io/hostname'' \<mapsto> ''a'']\<rparr>"

definition nodeB :: Node where
  "nodeB = \<lparr>node_Name = ''b'', node_Annotations = Some Map.empty\<rparr>"

definition nodeBare :: Node where
  "nodeBare = \<lparr>node_Name = ''a'', node_Annotations = None\<rparr>"

definition nodeGone :: Node where
  "nodeGone = \<lparr>node_Name = ''a'', node_Annotations = Some [EtcdRemovedNodeAnnotation \<mapsto> ''a'']\<rparr>"

definition memberA :: Member where
  "memberA = \<lparr>member_ID = 1, member_Name = ''a''\<rparr>"

definition memberB :: Member where
  "memberB = \<lparr>member_ID = 2, member_Name = ''b''\<rparr>"

definition memberC :: Member where
  "memberC = \<lparr>member_ID = 3, member_Name = ''c''\<rparr>"

definition memberPending :: Member where
  "memberPending = \<lparr>member_ID = 4, member_Name = []\<rparr>"

text \<open>
  Two control-plane Nodes \<open>a\<close> and \<open>b\<close>, both reachable, \<open>a\<close> the etcd leader, and the
  members given; nothing fails.
\<close>

definition cluster :: "Member list \<Rightarrow> Fake" where
  "cluster ms =
     \<lparr>fake_nodes = [nodeA, nodeB], fake_listErr = None,
      fake_reachable = [''a'', ''b''], fake_unhealthy = [],
      fake_members = ms, fake_leader = 1,
      fake_removeErr = None, fake_moveErr = None,
      fake_helperErr = None, fake_patchErr = None\<rparr>"

text \<open>A cluster with the single control-plane Node \<open>a\<close>.\<close>

definition loneCluster :: Fake where
  "loneCluster = (cluster [memberA])\<lparr>fake_nodes := [nodeA], fake_reachable := [''a'']\<rparr>"

text \<open>Two control-plane Nodes, the first of which has no annotation map.\<close>

definition bareCluster :: Fake where
  "bareCluster = (cluster [memberA, memberB])\<lparr>fake_nodes := [nodeBare, nodeB]\<rparr>"

text \<open>A Machine without a Node reference, and Machines for the Nodes \<open>a\<close> and \<open>b\<close>.\<close>

definition machineUnbound :: Machine where
  "machineUnbound = \<lparr>machine_NodeRef = None\<rparr>"

definition machineA :: Machine where
  "machineA = \<lparr>machine_NodeRef = Some ''a''\<rparr>"

definition machineB :: Machine where
  "machineB = \<lparr>machine_NodeRef = Some ''b''\<rparr>"

text \<open>
  Three members, \<open>c\<close> without a Node, and an etcd that refuses every removal.
\<close>

definition stubbornCluster :: Fake where
  "stubbornCluster =
     (cluster [memberA, memberB, memberC])
       \<lparr>fake_removeErr := Some (ErrCollaborator ''etcdserver: unhealthy cluster'')\<rparr>"

text \<open>The same, with the peer on \<open>a\<close> out of reach, or answering but unable to list.\<close>

definition partitionedCluster :: Fake where
  "partitionedCluster = stubbornCluster\<lparr>fake_reachable := [''b'']\<rparr>"

definition deafCluster :: Fake where
  "deafCluster = stubbornCluster\<lparr>fake_unhealthy := [''a'']\<rparr>"

text \<open>
  Node \<open>a\<close> already acknowledged as removed; and a cluster whose API server cannot
  build a patch helper.
\<close>

definition goneCluster :: Fake where
  "goneCluster = (cluster [memberB])\<lparr>fake_nodes := [nodeGone, nodeB]\<rparr>"

definition helperlessCluster :: Fake where
  "helperlessCluster =
     (cluster [memberA, memberB])\<lparr>fake_helperErr := Some (ErrCollaborator ''no kind is registered'')\<rparr>"

text \<open>
  Two members without a Node, \<open>c\<close> and \<open>d\<close>, seen from \<open>b\<close> only; and collaborators
  whose etcd refuses each removal with an error of its own.
\<close>

definition memberD :: Member where
  "memberD = \<lparr>member_ID = 5, member_Name = ''d''\<rparr>"

definition crowdedCluster :: Fake where
  "crowdedCluster = (cluster [memberA, memberB, memberC, memberD])\<lparr>fake_reachable := [''b'']\<rparr>"

definition refusingWorld :: "Fake World" where
  "refusingWorld =
     fakeWorld\<lparr>RemoveMember :=
       (\<lambda>c i s. (Some (ErrCollaborator (if i = 3 then ''member 3 is busy'' else ''member is learner'')), s))\<rparr>"

section \<open>Evaluation rules\<close>

lemmas call_defs =
  call_getControlPlaneNodes_def call_forFirstAvailableNode_def call_forLeader_def
  call_Members_def call_RemoveMember_def call_MoveLeader_def call_Close_def
  call_NewHelper_def call_Patch_def

lemmas fake_defs =
  fakeWorld_def cluster_def loneCluster_def bareCluster_def stubbornCluster_def
  partitionedCluster_def deafCluster_def goneCluster_def helperlessCluster_def
  fake_connect_def fake_patch_def
  nodeA_def nodeB_def nodeBare_def nodeGone_def
  memberA_def memberB_def memberC_def memberPending_def
  machineUnbound_def machineA_def machineB_def memberD_def crowdedCluster_def

section \<open>The quorum floor\<close>

text \<open>
  Claim C5. When the listed control-plane node set has fewer than 2 Nodes,
  \<open>removeMemberForNode\<close> returns \<open>(false, ErrControlPlaneMinNodes)\<close>; the only
  collaborator it has called is the node lister, so no patch helper was created, no patch
  was issued, and the state is the one the lister left.
\<close>

theorem removeMemberForNode_below_floor:
  assumes "getControlPlaneNodes w (fst r) = (Inr items, s')" and "length items < 2"
  shows "removeMemberForNode w name r =
           (Returns (False, Some ErrControlPlaneMinNodes), (s', snd r @ [GetControlPlaneNodes]))
         \<and> filter isPatch (snd (snd (removeMemberForNode w name r))) = filter isPatch (snd r)"
  using assms by (simp add: removeMemberForNode_def call_getControlPlaneNodes_def)

theorem removeMemberForNode_below_floor_witness:
  "getControlPlaneNodes fakeWorld (fst (loneCluster, [])) = (Inr [nodeA], loneCluster)
   \<and> length [nodeA] < 2
   \<and> removeMemberForNode fakeWorld ''a'' (loneCluster, []) =
        (Returns (False, Some ErrControlPlaneMinNodes), (loneCluster, [GetControlPlaneNodes]))
   \<and> fake_nodes (fst (snd (removeMemberForNode fakeWorld ''a'' (loneCluster, [])))) = [nodeA]"
proof -
  have h: "getControlPlaneNodes fakeWorld (fst (loneCluster, [])) = (Inr [nodeA], loneCluster)"
    by (simp add: fake_defs)
  have l: "length [nodeA] < 2" by simp
  from removeMemberForNode_below_floor [OF h l, of "''a''"] h
  show ?thesis by (simp add: loneCluster_def cluster_def)
qed

text \<open>
  Claim C1, as amended. The floor is a guard on the number of Nodes listed, not on the
  number that would be left: given a successful listing, \<open>removeMemberForNonExistingNode\<close>
  and \<open>removeMemberForNode\<close> return the quorum-floor error exactly when fewer than 2
  Nodes are listed, and then they have called nothing but the lister. With 2 Nodes listed
  they go on, although the target's removal leaves one.
\<close>

theorem quorum_floor_on_listed_count:
  assumes "getControlPlaneNodes w (fst r) = (Inr items, s')"
  shows "(fst (removeMemberForNonExistingNode w name r) = Some ErrControlPlaneMinNodes)
           = (length items < 2)
       \<and> (fst (removeMemberForNode w name r) = Returns (False, Some ErrControlPlaneMinNodes))
           = (length items < 2)
       \<and> (length items < 2 \<longrightarrow>
            snd (removeMemberForNonExistingNode w name r) = (s', snd r @ [GetControlPlaneNodes])
          \<and> snd (removeMemberForNode w name r) = (s', snd r @ [GetControlPlaneNodes]))"
  using assms
  by (auto simp add: removeMemberForNonExistingNode_def removeMemberForNode_def
        call_getControlPlaneNodes_def Let_def
      split: prod.splits sum.splits option.splits)

theorem quorum_floor_on_listed_count_witness:
  "getControlPlaneNodes fakeWorld (fst (loneCluster, [])) = (Inr [nodeA], loneCluster)
   \<and> length [nodeA] < 2
   \<and> removeMemberForNonExistingNode fakeWorld ''c'' (loneCluster, []) =
        (Some ErrControlPlaneMinNodes, (loneCluster, [GetControlPlaneNodes]))
   \<and> removeMemberForNode fakeWorld ''a'' (loneCluster, []) =
        (Returns (False, Some ErrControlPlaneMinNodes), (loneCluster, [GetControlPlaneNodes]))"
proof -
  have h: "getControlPlaneNodes fakeWorld (fst (loneCluster, [])) = (Inr [nodeA], loneCluster)"
    by (simp add: fake_defs)
  from quorum_floor_on_listed_count [OF h, of "''c''"] quorum_floor_on_listed_count [OF h, of "''a''"] h
  show ?thesis by (simp add: prod_eq_iff)
qed

text \<open>
  The claim as stated fails on two Nodes \<open>a\<close> and \<open>b\<close> with target \<open>a\<close>: one Node would
  remain, yet the decommission request is patched onto the Node and the direct removal
  issues \<open>RemoveMember\<close>.
\<close>

theorem quorum_floor_counterexample:
  "length (remainingNodes (fake_nodes (cluster [memberA, memberB])) ''a'') < 2
   \<and> fst (removeMemberForNode fakeWorld ''a'' (cluster [memberA, memberB], [])) = Returns (False, None)
   \<and> list_ex isPatch (snd (snd (removeMemberForNode fakeWorld ''a'' (cluster [memberA, memberB], []))))
   \<and> fst (removeMemberForNonExistingNode fakeWorld ''a'' (cluster [memberA, memberB], [])) = None
   \<and> list_ex isRemoveMember
        (snd (snd (removeMemberForNonExistingNode fakeWorld ''a'' (cluster [memberA, memberB], []))))"
  by (simp add: removeMemberForNonExistingNode_def removeMemberForNode_def findRemovingNode_def
        zeroNode_def hasKey_def Let_def remainingNodes_def MemberForName_def
        EtcdRemovedNodeAnnotation_def call_defs fake_defs)

section \<open>Panics\<close>

text \<open>
  Claim C2. The claim has every operation return for every input, a Node with a nil
  annotation map included. On two control-plane Nodes of which the target has no annotation
  map, \<open>removeMemberForNode\<close> creates the patch helper and then panics on the assignment
  to the nil map, and so does \<open>RemoveEtcdMemberForMachine\<close>, which calls it.
\<close>

theorem removeMemberForNode_nil_annotations_panics:
  "fst (removeMemberForNode fakeWorld ''a'' (bareCluster, [])) =
     Panics ''assignment to entry in nil map''
   \<and> fst (RemoveEtcdMemberForMachine fakeWorld (Some machineA) (bareCluster, [])) =
       Panics ''assignment to entry in nil map''"
  by (simp add: RemoveEtcdMemberForMachine_def removeMemberForNode_def findRemovingNode_def
        zeroNode_def hasKey_def Let_def call_defs fake_defs)

section \<open>Leadership forwarding\<close>

text \<open>
  Claim C4, as amended. \<open>ForwardEtcdLeadership\<close> with a nil candidate calls no
  collaborator at all. It returns the error "leader candidate cannot be nil" when the
  outgoing machine has a Node reference; when the outgoing machine is nil or has no Node
  reference, the first guard has already returned nil.
\<close>

theorem Forward_nil_candidate:
  "ForwardEtcdLeadership w machine None r =
     ((case machine of
         None \<Rightarrow> None
       | Some m \<Rightarrow>
           (case machine_NodeRef m of
              None \<Rightarrow> None
            | Some n \<Rightarrow> Some (ErrNew ''leader candidate cannot be nil''))), r)"
  by (simp add: ForwardEtcdLeadership_def split: option.splits)

theorem Forward_nil_candidate_witness:
  "ForwardEtcdLeadership fakeWorld (Some machineA) None (cluster [memberA, memberB], []) =
     (Some (ErrNew ''leader candidate cannot be nil''), (cluster [memberA, memberB], []))"
  using Forward_nil_candidate [of fakeWorld "Some machineA" "(cluster [memberA, memberB], [])"]
  by (simp add: machineA_def)

text \<open>
  The claim as stated fails for an outgoing machine without a Node reference: the call
  returns nil, not an error.
\<close>

theorem Forward_nil_candidate_counterexample:
  "ForwardEtcdLeadership fakeWorld (Some machineUnbound) None (cluster [memberA, memberB], []) =
     (None, (cluster [memberA, memberB], []))"
  by (simp add: ForwardEtcdLeadership_def machineUnbound_def)

section \<open>The reconciler\<close>

subsection \<open>The names reported as removed\<close>

text \<open>
  Whatever the removals return, \<open>loopmembers\<close> appends the derived name of every
  orphaned member of the listing, in listing order.
\<close>

lemma loopmembers_removedMembers:
  "fst (fst (loopmembers w nodeNames members removedMembers errs r)) =
     removedMembers @ orphanedNames w nodeNames members"
  by (induction members arbitrary: removedMembers errs r)
     (simp_all add: orphanedNames_def Let_def split: prod.splits option.splits)

lemma find_hidden:
  "name \<noteq> [] \<Longrightarrow>
   find (\<lambda>m. f m = name) (filter (\<lambda>m. f m \<noteq> []) ms) = find (\<lambda>m. f m = name) ms"
  by (induction ms) auto

lemma MemberForName_hidePending:
  "name \<noteq> [] \<Longrightarrow>
   MemberForName (hidePending w) (filter (\<lambda>m. NodeNameFromMember w m \<noteq> []) members) name =
     MemberForName w members name"
  by (simp add: MemberForName_def hidePending_def find_hidden)

lemma removeMemberForNonExistingNode_hidePending:
  "name \<noteq> [] \<Longrightarrow>
   removeMemberForNonExistingNode (hidePending w) name r = removeMemberForNonExistingNode w name r"
  unfolding removeMemberForNonExistingNode_def call_defs
  apply (simp split: prod.splits sum.splits option.splits add: MemberForName_hidePending)
  apply (auto simp add: hidePending_def MemberForName_def find_hidden split: prod.splits sum.splits option.splits)
  done

lemma loopmembers_hidePending:
  "loopmembers (hidePending w) nodeNames (filter (\<lambda>m. NodeNameFromMember w m \<noteq> []) members)
     removedMembers errs r = loopmembers w nodeNames members removedMembers errs r"
proof (induction members arbitrary: removedMembers errs r)
  case Nil
  show ?case by simp
next
  case (Cons m ms)
  have nn: "NodeNameFromMember (hidePending w) m = NodeNameFromMember w m"
    by (simp add: hidePending_def)
  show ?case
  proof (cases "NodeNameFromMember w m = []")
    case True
    then show ?thesis using Cons.IH by simp
  next
    case False
    then show ?thesis
      using Cons.IH removeMemberForNonExistingNode_hidePending [OF False, of w]
      by (simp add: nn Let_def split: prod.splits option.splits)
  qed
qed

lemma reconcileEtcdMember_hidePending:
  "reconcileEtcdMember (hidePending w) nodeNames nodeName r = reconcileEtcdMember w nodeNames nodeName r"
proof -
  have f: "call_forFirstAvailableNode (hidePending w) [nodeName] r = call_forFirstAvailableNode w [nodeName] r"
    by (simp add: call_forFirstAvailableNode_def hidePending_def)
  have c: "\<And>c r. call_Close (hidePending w) c r = call_Close w c r"
    by (simp add: call_Close_def hidePending_def)
  have m: "\<And>c r. call_Members (hidePending w) c r =
      (case call_Members w c r of
         (Inl err, r') \<Rightarrow> (Inl err, r')
       | (Inr members, r') \<Rightarrow> (Inr (filter (\<lambda>m. NodeNameFromMember w m \<noteq> []) members), r'))"
    by (simp add: call_Members_def hidePending_def split: prod.splits sum.splits)
  show ?thesis
    unfolding reconcileEtcdMember_def f
    by (simp add: m c loopmembers_hidePending split: prod.splits sum.splits)
qed

lemma reconcileLoop_hidePending:
  "reconcileLoop (hidePending w) nodeNames todo rm es r = reconcileLoop w nodeNames todo rm es r"
  by (induction todo arbitrary: rm es r) (simp_all add: reconcileEtcdMember_hidePending)

lemma reconcileEtcdMember_unreachable:
  "call_forFirstAvailableNode w [nodeName] r = (Inl e, r1) \<Longrightarrow>
   reconcileEtcdMember w nodeNames nodeName r = (([], []), r1)"
  by (simp add: reconcileEtcdMember_def)

lemma reconcileEtcdMember_unlisted:
  "call_forFirstAvailableNode w [nodeName] r = (Inr c, r1) \<Longrightarrow>
   call_Members w c r1 = (Inl e, r2) \<Longrightarrow>
   reconcileEtcdMember w nodeNames nodeName r = (([], []), call_Close w c r2)"
  by (simp add: reconcileEtcdMember_def)

lemma reconcileEtcdMember_listed:
  "call_forFirstAvailableNode w [nodeName] r = (Inr c, r1) \<Longrightarrow>
   call_Members w c r1 = (Inr members, r2) \<Longrightarrow>
   fst (fst (reconcileEtcdMember w nodeNames nodeName r)) = orphanedNames w nodeNames members"
  using loopmembers_removedMembers [of w nodeNames members "[]" "[]" r2]
  by (auto simp add: reconcileEtcdMember_def split: prod.splits)

lemma reconcileEtcdMember_removedMembers:
  "set (fst (fst (reconcileEtcdMember w nodeNames nodeName r))) \<subseteq> {n. n \<noteq> [] \<and> n \<notin> set nodeNames}"
proof -
  obtain res r1 where Pair: "call_forFirstAvailableNode w [nodeName] r = (res, r1)"
    by (cases "call_forFirstAvailableNode w [nodeName] r")
  show ?thesis
  proof (cases res)
    case (Inl e)
    then show ?thesis using Pair by (simp add: reconcileEtcdMember_unreachable)
  next
    case (Inr c)
    obtain res2 r2 where m: "call_Members w c r1 = (res2, r2)"
      by (cases "call_Members w c r1")
    show ?thesis
    proof (cases res2)
      case (Inl e)
      then show ?thesis using Pair Inr m by (simp add: reconcileEtcdMember_unlisted)
    next
      case (Inr members)
      have "fst (fst (reconcileEtcdMember w nodeNames nodeName r)) = orphanedNames w nodeNames members"
        using Pair \<open>res = Inr c\<close> m Inr by (simp add: reconcileEtcdMember_listed)
      then show ?thesis by (auto simp add: orphanedNames_def)
    qed
  qed
qed

lemma reconcileLoop_removedMembers:
  "set (fst (fst (reconcileLoop w nodeNames todo rm es r))) \<subseteq> set rm \<union> {n. n \<noteq> [] \<and> n \<notin> set nodeNames}"
proof (induction todo arbitrary: rm es r)
  case Nil
  show ?case by simp
next
  case (Cons n todo)
  obtain rm1 es1 r1 where e: "reconcileEtcdMember w nodeNames n r = ((rm1, es1), r1)"
    by (metis prod.exhaust)
  have "set rm1 \<subseteq> {n. n \<noteq> [] \<and> n \<notin> set nodeNames}"
    using reconcileEtcdMember_removedMembers [of w nodeNames n r] e by simp
  then show ?case
    using Cons.IH [of "rm @ rm1" "es @ es1" r1] e by auto
qed

text \<open>
  Claim C6. For every \<open>nodeNames\<close> and whatever the collaborators return, the empty name
  is never in the list \<open>ReconcileEtcdMembers\<close> returns, and the whole run (results, final
  state and the calls issued, \<open>RemoveMember\<close> among them) is the run against collaborators
  whose member listings leave out the members with an empty derived name: such a member is
  never a removal candidate and is never compared with the node names.
\<close>

theorem pending_member_never_candidate:
  "[] \<notin> set (fst (fst (ReconcileEtcdMembers w nodeNames r)))
   \<and> ReconcileEtcdMembers (hidePending w) nodeNames r = ReconcileEtcdMembers w nodeNames r"
proof -
  have "set (fst (fst (reconcileLoop w nodeNames nodeNames [] [] r))) \<subseteq> {n. n \<noteq> [] \<and> n \<notin> set nodeNames}"
    using reconcileLoop_removedMembers [of w nodeNames nodeNames "[]" "[]" r] by simp
  then have "[] \<notin> set (fst (fst (ReconcileEtcdMembers w nodeNames r)))"
    by (auto simp add: ReconcileEtcdMembers_def split: prod.splits)
  then show ?thesis
    by (simp add: ReconcileEtcdMembers_def reconcileLoop_hidePending)
qed

theorem pending_member_never_candidate_witness:
  "ReconcileEtcdMembers fakeWorld [''a'', ''b''] (cluster [memberA, memberPending, memberB], []) =
     (([], None),
      (cluster [memberA, memberPending, memberB],
       [ForFirstAvailableNode [''a''],
        ClientMembers \<lparr>client_Endpoint = ''a'', LeaderID = 1\<rparr>,
        ClientClose \<lparr>client_Endpoint = ''a'', LeaderID = 1\<rparr>,
        ForFirstAvailableNode [''b''],
        ClientMembers \<lparr>client_Endpoint = ''b'', LeaderID = 1\<rparr>,
        ClientClose \<lparr>client_Endpoint = ''b'', LeaderID = 1\<rparr>]))
   \<and> ReconcileEtcdMembers (hidePending fakeWorld) [''a'', ''b'']
         (cluster [memberA, memberPending, memberB], []) =
       ReconcileEtcdMembers fakeWorld [''a'', ''b''] (cluster [memberA, memberPending, memberB], [])"
proof -
  have "ReconcileEtcdMembers fakeWorld [''a'', ''b''] (cluster [memberA, memberPending, memberB], []) =
     (([], None),
      (cluster [memberA, memberPending, memberB],
       [ForFirstAvailableNode [''a''],
        ClientMembers \<lparr>client_Endpoint = ''a'', LeaderID = 1\<rparr>,
        ClientClose \<lparr>client_Endpoint = ''a'', LeaderID = 1\<rparr>,
        ForFirstAvailableNode [''b''],
        ClientMembers \<lparr>client_Endpoint = ''b'', LeaderID = 1\<rparr>,
        ClientClose \<lparr>client_Endpoint = ''b'', LeaderID = 1\<rparr>]))"
    by (simp add: ReconcileEtcdMembers_def reconcileEtcdMember_def NewAggregate_def Let_def
          call_defs fake_defs)
  then show ?thesis
    using pending_member_never_candidate
      [of fakeWorld "[''a'', ''b'']" "(cluster [memberA, memberPending, memberB], [])"]
    by simp
qed


section \<open>The calls issued\<close>

text \<open>Each call on a collaborator extends the record of calls by itself.\<close>

lemma call_trace:
  "call_getControlPlaneNodes w r = (nres, r') \<Longrightarrow> snd r' = snd r @ [GetControlPlaneNodes]"
  "call_forFirstAvailableNode w names r = (cres, r') \<Longrightarrow> snd r' = snd r @ [ForFirstAvailableNode names]"
  "call_forLeader w names r = (cres, r') \<Longrightarrow> snd r' = snd r @ [ForLeader names]"
  "call_Members w c r = (mres, r') \<Longrightarrow> snd r' = snd r @ [ClientMembers c]"
  "call_RemoveMember w c i r = (eres, r') \<Longrightarrow> snd r' = snd r @ [ClientRemoveMember c i]"
  "call_MoveLeader w c i r = (eres, r') \<Longrightarrow> snd r' = snd r @ [ClientMoveLeader c i]"
  "call_NewHelper w n r = (hres, r') \<Longrightarrow> snd r' = snd r @ [PatchNewHelper n]"
  "call_Patch w h n r = (eres, r') \<Longrightarrow> snd r' = snd r @ [PatchPatch h n]"
  "snd (call_Close w c r) = snd r @ [ClientClose c]"
  by (auto simp add: call_defs split: prod.splits)

lemma MemberForName_None:
  "(MemberForName w members name = None) = (\<forall>m\<in>set members. NodeNameFromMember w m \<noteq> name)"
  by (auto simp add: MemberForName_def find_None_iff)

text \<open>
  Claim C9. In \<open>ForwardEtcdLeadership\<close>, once the members are listed: when no listed
  member has the outgoing machine's node as its derived name, or the member found has an id
  other than the client's \<open>LeaderID\<close>, the call returns nil after closing the client, and
  it has issued no \<open>MoveLeader\<close>.
\<close>

theorem Forward_non_leader_noop:
  assumes "machine_NodeRef m = Some machineNode"
      and "machine_NodeRef candidate = Some candidateNode"
      and "call_getControlPlaneNodes w r0 = (Inr items, r1)"
      and "call_forLeader w (map node_Name items) r1 = (Inr etcdClient, r2)"
      and "call_Members w etcdClient r2 = (Inr members, r3)"
      and "(\<forall>x\<in>set members. NodeNameFromMember w x \<noteq> machineNode)
           \<or> (\<exists>currentMember. MemberForName w members machineNode = Some currentMember
                 \<and> member_ID currentMember \<noteq> LeaderID etcdClient)"
  shows "ForwardEtcdLeadership w (Some m) (Some candidate) r0 = (None, call_Close w etcdClient r3)
       \<and> filter isMoveLeader (snd (snd (ForwardEtcdLeadership w (Some m) (Some candidate) r0)))
           = filter isMoveLeader (snd r0)"
proof -
  have res: "ForwardEtcdLeadership w (Some m) (Some candidate) r0 = (None, call_Close w etcdClient r3)"
    using assms
    by (auto simp add: ForwardEtcdLeadership_def MemberForName_None [symmetric] split: option.splits)
  have "snd (call_Close w etcdClient r3) =
          snd r0 @ [GetControlPlaneNodes, ForLeader (map node_Name items), ClientMembers etcdClient,
                    ClientClose etcdClient]"
    using assms(3,4,5) by (simp add: call_trace)
  then show ?thesis using res by simp
qed

theorem Forward_non_leader_noop_witness:
  "ForwardEtcdLeadership fakeWorld (Some machineB) (Some machineA) (cluster [memberA, memberB], []) =
     (None, (cluster [memberA, memberB],
        [GetControlPlaneNodes, ForLeader [''a'', ''b''],
         ClientMembers \<lparr>client_Endpoint = ''a'', LeaderID = 1\<rparr>,
         ClientClose \<lparr>client_Endpoint = ''a'', LeaderID = 1\<rparr>]))
   \<and> MemberForName fakeWorld [memberA, memberB] ''b'' = Some memberB
   \<and> member_ID memberB \<noteq> LeaderID \<lparr>client_Endpoint = ''a'', LeaderID = 1\<rparr>"
proof -
  let ?s = "cluster [memberA, memberB]"
  let ?c = "\<lparr>client_Endpoint = ''a'', LeaderID = 1\<rparr>"
  have h1: "machine_NodeRef machineB = Some ''b''" by (simp add: machineB_def)
  have h2: "machine_NodeRef machineA = Some ''a''" by (simp add: machineA_def)
  have h3: "call_getControlPlaneNodes fakeWorld (?s, []) = (Inr [nodeA, nodeB], (?s, [GetControlPlaneNodes]))"
    by (simp add: call_defs fake_defs)
  have h4: "call_forLeader fakeWorld (map node_Name [nodeA, nodeB]) (?s, [GetControlPlaneNodes]) =
              (Inr ?c, (?s, [GetControlPlaneNodes, ForLeader [''a'', ''b'']]))"
    by (simp add: call_defs fake_defs)
  have h5: "call_Members fakeWorld ?c (?s, [GetControlPlaneNodes, ForLeader [''a'', ''b'']]) =
              (Inr [memberA, memberB], (?s, [GetControlPlaneNodes, ForLeader [''a'', ''b''], ClientMembers ?c]))"
    by (simp add: call_defs fake_defs)
  have m: "MemberForName fakeWorld [memberA, memberB] ''b'' = Some memberB"
    by (simp add: MemberForName_def fake_defs)
  have d: "member_ID memberB \<noteq> LeaderID ?c" by (simp add: memberB_def)
  have h6: "(\<forall>x\<in>set [memberA, memberB]. NodeNameFromMember fakeWorld x \<noteq> ''b'')
           \<or> (\<exists>currentMember. MemberForName fakeWorld [memberA, memberB] ''b'' = Some currentMember
                 \<and> member_ID currentMember \<noteq> LeaderID ?c)"
    using m d by blast
  from Forward_non_leader_noop [OF h1 h2 h3 h4 h5 h6] m d
  show ?thesis by (simp add: call_Close_def fakeWorld_def)
qed

subsection \<open>Results are concatenated in input order\<close>

text \<open>
  The accumulators of both loops only grow: a loop started on accumulators gives what it
  gives on empty ones, appended to them.
\<close>

lemma reconcileLoop_accumulates:
  "reconcileLoop w nodeNames todo rm es r =
     (case reconcileLoop w nodeNames todo [] [] r of
        ((rm', es'), r') \<Rightarrow> ((rm @ rm', es @ es'), r'))"
proof (induction todo arbitrary: rm es r)
  case Nil
  show ?case by simp
next
  case (Cons n todo)
  obtain rm1 es1 r1 where e: "reconcileEtcdMember w nodeNames n r = ((rm1, es1), r1)"
    by (metis prod.exhaust)
  obtain rm2 es2 r2 where l: "reconcileLoop w nodeNames todo [] [] r1 = ((rm2, es2), r2)"
    by (metis prod.exhaust)
  have a: "reconcileLoop w nodeNames todo (rm @ rm1) (es @ es1) r1 = (((rm @ rm1) @ rm2, (es @ es1) @ es2), r2)"
    using Cons.IH [of "rm @ rm1" "es @ es1" r1] l by simp
  have b: "reconcileLoop w nodeNames todo rm1 es1 r1 = ((rm1 @ rm2, es1 @ es2), r2)"
    using Cons.IH [of rm1 es1 r1] l by simp
  show ?case using e a b by simp
qed

lemma reconcileLoop_Cons:
  "reconcileLoop w nodeNames (nodeName # rest) [] [] r =
     (case reconcileEtcdMember w nodeNames nodeName r of
        ((rm1, es1), r1) \<Rightarrow>
          (case reconcileLoop w nodeNames rest [] [] r1 of
             ((rm2, es2), r2) \<Rightarrow> ((rm1 @ rm2, es1 @ es2), r2)))"
proof -
  obtain rm1 es1 r1 where e: "reconcileEtcdMember w nodeNames nodeName r = ((rm1, es1), r1)"
    by (metis prod.exhaust)
  show ?thesis
    using e reconcileLoop_accumulates [of w nodeNames rest rm1 es1 r1] by simp
qed

lemma loopmembers_accumulates:
  "loopmembers w nodeNames members rm es r =
     (case loopmembers w nodeNames members [] [] r of
        ((rm', es'), r') \<Rightarrow> ((rm @ rm', es @ es'), r'))"
proof (induction members arbitrary: rm es r)
  case Nil
  show ?case by simp
next
  case (Cons m members)
  let ?cur = "NodeNameFromMember w m"
  show ?case
  proof (cases "?cur = [] \<or> ?cur \<in> set nodeNames")
    case True
    then have skip: "\<And>rm' es'. loopmembers w nodeNames (m # members) rm' es' r =
        loopmembers w nodeNames members rm' es' r"
      by (auto simp add: Let_def)
    show ?thesis unfolding skip by (rule Cons.IH)
  next
    case False
    obtain e r1 where x: "removeMemberForNonExistingNode w ?cur r = (e, r1)"
      by (metis prod.exhaust)
    obtain rm2 es2 r2 where l: "loopmembers w nodeNames members [] [] r1 = ((rm2, es2), r2)"
      by (metis prod.exhaust)
    show ?thesis
    proof (cases e)
      case None
      have a: "loopmembers w nodeNames members (rm @ [?cur]) es r1 = (((rm @ [?cur]) @ rm2, es @ es2), r2)"
        using Cons.IH [of "rm @ [?cur]" es r1] l by simp
      have b: "loopmembers w nodeNames members [?cur] [] r1 = (([?cur] @ rm2, [] @ es2), r2)"
        using Cons.IH [of "[?cur]" "[]" r1] l by simp
      show ?thesis using False x None a b by simp
    next
      case (Some err)
      have a: "loopmembers w nodeNames members (rm @ [?cur]) (es @ [err]) r1 =
                 (((rm @ [?cur]) @ rm2, (es @ [err]) @ es2), r2)"
        using Cons.IH [of "rm @ [?cur]" "es @ [err]" r1] l by simp
      have b: "loopmembers w nodeNames members [?cur] [err] r1 = (([?cur] @ rm2, [err] @ es2), r2)"
        using Cons.IH [of "[?cur]" "[err]" r1] l by simp
      show ?thesis using False x Some a b by simp
    qed
  qed
qed

lemma loopmembers_orphan:
  assumes "NodeNameFromMember w member \<noteq> []" and "NodeNameFromMember w member \<notin> set nodeNames"
  shows "loopmembers w nodeNames (member # rest) [] [] r =
     (case removeMemberForNonExistingNode w (NodeNameFromMember w member) r of
        (e, r1) \<Rightarrow>
          (case loopmembers w nodeNames rest [] [] r1 of
             ((rm2, es2), r2) \<Rightarrow>
               ((NodeNameFromMember w member # rm2,
                 (case e of None \<Rightarrow> [] | Some err \<Rightarrow> [err]) @ es2), r2)))"
proof -
  let ?cur = "NodeNameFromMember w member"
  obtain e r1 where x: "removeMemberForNonExistingNode w ?cur r = (e, r1)"
    by (metis prod.exhaust)
  show ?thesis
  proof (cases e)
    case None
    then show ?thesis
      using assms x loopmembers_accumulates [of w nodeNames rest "[?cur]" "[]" r1] by simp
  next
    case (Some err)
    then show ?thesis
      using assms x loopmembers_accumulates [of w nodeNames rest "[?cur]" "[err]" r1] by simp
  qed
qed

text \<open>
  A node whose client is acquired and whose members are listed gives what \<open>loopmembers\<close>
  gives on that listing, all of it, and the client is closed afterwards.
\<close>

lemma reconcileEtcdMember_visits:
  "call_forFirstAvailableNode w [nodeName] r = (Inr c, ra) \<Longrightarrow>
   call_Members w c ra = (Inr listing, rb) \<Longrightarrow>
   reconcileEtcdMember w nodeNames nodeName r =
     (case loopmembers w nodeNames listing [] [] rb of
        ((rm, es), rc) \<Rightarrow> ((rm, es), call_Close w c rc))"
  by (simp add: reconcileEtcdMember_def split: prod.splits)

lemma loopmembers_passes:
  "NodeNameFromMember w member = [] \<or> NodeNameFromMember w member \<in> set nodeNames \<Longrightarrow>
   loopmembers w nodeNames (member # members) rm es r = loopmembers w nodeNames members rm es r"
  by (auto simp add: Let_def)

text \<open>
  Claim C8. In \<open>ReconcileEtcdMembers\<close>: a node whose client cannot be acquired, or whose
  members cannot be listed, contributes no removed name and no error; a node whose members
  are listed contributes exactly what the loop over its listing collects, and its client is
  closed. The run goes on with the remaining nodes, in input order, from the state that
  node left, and the results of the nodes are concatenated. Within a listing, a member with
  an empty derived name or with the name of a node contributes nothing; each orphaned member
  contributes its name and, when its removal fails, that error, ahead of what the members
  after it contribute. The error returned is nil when no error was collected, and otherwise
  one aggregate holding every collected error, in the order collected.
\<close>

theorem reconcile_skips_and_aggregates:
  "(call_forFirstAvailableNode w [nodeName] r = (Inl err, ra) \<longrightarrow>
      reconcileEtcdMember w nodeNames nodeName r = (([], []), ra))
   \<and> (call_forFirstAvailableNode w [nodeName] r = (Inr c, ra) \<and> call_Members w c ra = (Inl err, rb) \<longrightarrow>
      reconcileEtcdMember w nodeNames nodeName r = (([], []), call_Close w c rb))
   \<and> (call_forFirstAvailableNode w [nodeName] r = (Inr c, ra) \<and> call_Members w c ra = (Inr listing, rb) \<longrightarrow>
      reconcileEtcdMember w nodeNames nodeName r =
        (case loopmembers w nodeNames listing [] [] rb of
           ((rm, es), rc) \<Rightarrow> ((rm, es), call_Close w c rc)))
   \<and> reconcileLoop w nodeNames [] [] [] r = (([], []), r)
   \<and> reconcileLoop w nodeNames (nodeName # rest) [] [] r =
       (case reconcileEtcdMember w nodeNames nodeName r of
          ((rm1, es1), r1) \<Rightarrow>
            (case reconcileLoop w nodeNames rest [] [] r1 of
               ((rm2, es2), r2) \<Rightarrow> ((rm1 @ rm2, es1 @ es2), r2)))
   \<and> loopmembers w nodeNames [] [] [] r = (([], []), r)
   \<and> (NodeNameFromMember w member = [] \<or> NodeNameFromMember w member \<in> set nodeNames \<longrightarrow>
       loopmembers w nodeNames (member # members) [] [] r = loopmembers w nodeNames members [] [] r)
   \<and> (NodeNameFromMember w member \<noteq> [] \<and> NodeNameFromMember w member \<notin> set nodeNames \<longrightarrow>
       loopmembers w nodeNames (member # members) [] [] r =
         (case removeMemberForNonExistingNode w (NodeNameFromMember w member) r of
            (e, r1) \<Rightarrow>
              (case loopmembers w nodeNames members [] [] r1 of
                 ((rm2, es2), r2) \<Rightarrow>
                   ((NodeNameFromMember w member # rm2,
                     (case e of None \<Rightarrow> [] | Some err \<Rightarrow> [err]) @ es2), r2))))
   \<and> ReconcileEtcdMembers w nodeNames r =
       (case reconcileLoop w nodeNames nodeNames [] [] r of
          ((rm, es), r') \<Rightarrow> ((rm, if es = [] then None else Some (ErrAggregate es)), r'))"
proof (intro conjI impI)
  assume "call_forFirstAvailableNode w [nodeName] r = (Inr c, ra) \<and> call_Members w c ra = (Inr listing, rb)"
  then show "reconcileEtcdMember w nodeNames nodeName r =
        (case loopmembers w nodeNames listing [] [] rb of
           ((rm, es), rc) \<Rightarrow> ((rm, es), call_Close w c rc))"
    using reconcileEtcdMember_visits [of w nodeName r c ra listing rb nodeNames] by blast
next
  show "reconcileLoop w nodeNames (nodeName # rest) [] [] r =
       (case reconcileEtcdMember w nodeNames nodeName r of
          ((rm1, es1), r1) \<Rightarrow>
            (case reconcileLoop w nodeNames rest [] [] r1 of
               ((rm2, es2), r2) \<Rightarrow> ((rm1 @ rm2, es1 @ es2), r2)))"
    by (rule reconcileLoop_Cons)
next
  assume "NodeNameFromMember w member = [] \<or> NodeNameFromMember w member \<in> set nodeNames"
  then show "loopmembers w nodeNames (member # members) [] [] r = loopmembers w nodeNames members [] [] r"
    by (rule loopmembers_passes)
next
  assume "NodeNameFromMember w member \<noteq> [] \<and> NodeNameFromMember w member \<notin> set nodeNames"
  then show "loopmembers w nodeNames (member # members) [] [] r =
         (case removeMemberForNonExistingNode w (NodeNameFromMember w member) r of
            (e, r1) \<Rightarrow>
              (case loopmembers w nodeNames members [] [] r1 of
                 ((rm2, es2), r2) \<Rightarrow>
                   ((NodeNameFromMember w member # rm2,
                     (case e of None \<Rightarrow> [] | Some err \<Rightarrow> [err]) @ es2), r2)))"
    using loopmembers_orphan [of w member nodeNames members r] by blast
qed (simp_all add: reconcileEtcdMember_unreachable reconcileEtcdMember_unlisted
       ReconcileEtcdMembers_def NewAggregate_def)

theorem reconcile_skips_and_aggregates_witness:
  "call_forFirstAvailableNode fakeWorld [''a''] (partitionedCluster, []) =
     (Inl (ErrCollaborator ''could not establish a connection to any etcd node''),
      (partitionedCluster, [ForFirstAvailableNode [''a'']]))
   \<and> reconcileEtcdMember fakeWorld [''a'', ''b''] ''a'' (partitionedCluster, []) =
       (([], []), (partitionedCluster, [ForFirstAvailableNode [''a'']]))
   \<and> fst (ReconcileEtcdMembers fakeWorld [''a'', ''b''] (partitionedCluster, [])) =
       ([''c''],
        Some (ErrAggregate
          [ErrWrap (ErrCollaborator ''etcdserver: unhealthy cluster'')
             ''failed to remove member from etcd'']))
   \<and> fst (call_Members fakeWorld \<lparr>client_Endpoint = ''a'', LeaderID = 1\<rparr>
             (deafCluster, [ForFirstAvailableNode [''a'']])) =
       Inl (ErrCollaborator ''etcd member list failed'')
   \<and> reconcileEtcdMember fakeWorld [''a'', ''b''] ''a'' (deafCluster, []) =
       (([], []),
        (deafCluster,
         [ForFirstAvailableNode [''a''],
          ClientMembers \<lparr>client_Endpoint = ''a'', LeaderID = 1\<rparr>,
          ClientClose \<lparr>client_Endpoint = ''a'', LeaderID = 1\<rparr>]))
   \<and> fst (ReconcileEtcdMembers fakeWorld [''a'', ''b''] (deafCluster, [])) =
       ([''c''],
        Some (ErrAggregate
          [ErrWrap (ErrCollaborator ''etcd member list failed'')
             ''failed to list etcd members using etcd client'']))
   \<and> fst (ReconcileEtcdMembers fakeWorld [''a'', ''b''] (cluster [memberA, memberB], [])) = ([], None)
   \<and> fst (reconcileEtcdMember refusingWorld [''a'', ''b''] ''b'' (crowdedCluster, [])) =
       ([''c'', ''d''],
        [ErrWrap (ErrCollaborator ''member 3 is busy'') ''failed to remove member from etcd'',
         ErrWrap (ErrCollaborator ''member is learner'') ''failed to remove member from etcd''])
   \<and> fst (ReconcileEtcdMembers refusingWorld [''a'', ''b''] (crowdedCluster, [])) =
       ([''c'', ''d''],
        Some (ErrAggregate
          [ErrWrap (ErrCollaborator ''member 3 is busy'') ''failed to remove member from etcd'',
           ErrWrap (ErrCollaborator ''member is learner'') ''failed to remove member from etcd'']))"
proof -
  let ?cb = "\<lparr>client_Endpoint = ''b'', LeaderID = 1\<rparr>"
  let ?rb = "(crowdedCluster, [ForFirstAvailableNode [''b''], ClientMembers ?cb])"
  have c1: "call_forFirstAvailableNode refusingWorld [''b''] (crowdedCluster, []) =
     (Inr ?cb, (crowdedCluster, [ForFirstAvailableNode [''b'']]))"
    by (simp add: refusingWorld_def call_defs fake_defs)
  have c2: "call_Members refusingWorld ?cb (crowdedCluster, [ForFirstAvailableNode [''b'']]) =
     (Inr [memberA, memberB, memberC, memberD], ?rb)"
    by (simp add: refusingWorld_def call_defs fake_defs)
  have c3: "fst (loopmembers refusingWorld [''a'', ''b''] [memberA, memberB, memberC, memberD] [] [] ?rb) =
       ([''c'', ''d''],
        [ErrWrap (ErrCollaborator ''member 3 is busy'') ''failed to remove member from etcd'',
         ErrWrap (ErrCollaborator ''member is learner'') ''failed to remove member from etcd''])"
    by (simp add: refusingWorld_def removeMemberForNonExistingNode_def remainingNodes_def
          MemberForName_def Let_def call_defs fake_defs)
  have visit: "fst (reconcileEtcdMember refusingWorld [''a'', ''b''] ''b'' (crowdedCluster, [])) =
       ([''c'', ''d''],
        [ErrWrap (ErrCollaborator ''member 3 is busy'') ''failed to remove member from etcd'',
         ErrWrap (ErrCollaborator ''member is learner'') ''failed to remove member from etcd''])"
  proof -
    have "reconcileEtcdMember refusingWorld [''a'', ''b''] ''b'' (crowdedCluster, []) =
        (case loopmembers refusingWorld [''a'', ''b''] [memberA, memberB, memberC, memberD] [] [] ?rb of
           ((rm, es), rc) \<Rightarrow> ((rm, es), call_Close refusingWorld ?cb rc))"
      using reconcile_skips_and_aggregates
        [where w = refusingWorld and nodeName = "''b''" and r = "(crowdedCluster, [])" and c = ?cb
           and ra = "(crowdedCluster, [ForFirstAvailableNode [''b'']])"
           and listing = "[memberA, memberB, memberC, memberD]" and rb = ?rb
           and nodeNames = "[''a'', ''b'']"] c1 c2
      by blast
    then show ?thesis using c3 by (simp split: prod.splits)
  qed
  have run4: "fst (ReconcileEtcdMembers refusingWorld [''a'', ''b''] (crowdedCluster, [])) =
       ([''c'', ''d''],
        Some (ErrAggregate
          [ErrWrap (ErrCollaborator ''member 3 is busy'') ''failed to remove member from etcd'',
           ErrWrap (ErrCollaborator ''member is learner'') ''failed to remove member from etcd'']))"
    by (simp add: refusingWorld_def ReconcileEtcdMembers_def reconcileEtcdMember_def
          removeMemberForNonExistingNode_def remainingNodes_def MemberForName_def
          NewAggregate_def Let_def call_defs fake_defs)
  let ?ca = "\<lparr>client_Endpoint = ''a'', LeaderID = 1\<rparr>"
  let ?e1 = "ErrCollaborator ''could not establish a connection to any etcd node''"
  let ?e2 = "ErrCollaborator ''etcd member list failed''"
  have p1: "call_forFirstAvailableNode fakeWorld [''a''] (partitionedCluster, []) =
     (Inl ?e1, (partitionedCluster, [ForFirstAvailableNode [''a'']]))"
    by (simp add: call_defs fake_defs)
  have d1: "call_forFirstAvailableNode fakeWorld [''a''] (deafCluster, []) =
     (Inr ?ca, (deafCluster, [ForFirstAvailableNode [''a'']]))"
    by (simp add: call_defs fake_defs)
  have d2: "call_Members fakeWorld ?ca (deafCluster, [ForFirstAvailableNode [''a'']]) =
     (Inl ?e2, (deafCluster, [ForFirstAvailableNode [''a''], ClientMembers ?ca]))"
    by (simp add: call_defs fake_defs)
  have skip1: "reconcileEtcdMember fakeWorld [''a'', ''b''] ''a'' (partitionedCluster, []) =
       (([], []), (partitionedCluster, [ForFirstAvailableNode [''a'']]))"
    using reconcile_skips_and_aggregates
      [where w = fakeWorld and nodeName = "''a''" and r = "(partitionedCluster, [])"
         and err = ?e1 and ra = "(partitionedCluster, [ForFirstAvailableNode [''a'']])"
         and nodeNames = "[''a'', ''b'']"] p1
    by blast
  have skip2: "reconcileEtcdMember fakeWorld [''a'', ''b''] ''a'' (deafCluster, []) =
       (([], []), call_Close fakeWorld ?ca
           (deafCluster, [ForFirstAvailableNode [''a''], ClientMembers ?ca]))"
    using reconcile_skips_and_aggregates
      [where w = fakeWorld and nodeName = "''a''" and r = "(deafCluster, [])"
         and err = ?e2 and ra = "(deafCluster, [ForFirstAvailableNode [''a'']])" and c = ?ca
         and rb = "(deafCluster, [ForFirstAvailableNode [''a''], ClientMembers ?ca])"
         and nodeNames = "[''a'', ''b'']"] d1 d2
    by blast
  have run1: "fst (ReconcileEtcdMembers fakeWorld [''a'', ''b''] (partitionedCluster, [])) =
       ([''c''],
        Some (ErrAggregate
          [ErrWrap (ErrCollaborator ''etcdserver: unhealthy cluster'')
             ''failed to remove member from etcd'']))"
    by (simp add: ReconcileEtcdMembers_def reconcileEtcdMember_def
          removeMemberForNonExistingNode_def remainingNodes_def MemberForName_def
          NewAggregate_def Let_def call_defs fake_defs)
  have run2: "fst (ReconcileEtcdMembers fakeWorld [''a'', ''b''] (deafCluster, [])) =
       ([''c''],
        Some (ErrAggregate
          [ErrWrap (ErrCollaborator ''etcd member list failed'')
             ''failed to list etcd members using etcd client'']))"
    by (simp add: ReconcileEtcdMembers_def reconcileEtcdMember_def
          removeMemberForNonExistingNode_def remainingNodes_def MemberForName_def
          NewAggregate_def Let_def call_defs fake_defs)
  have run3: "fst (ReconcileEtcdMembers fakeWorld [''a'', ''b''] (cluster [memberA, memberB], [])) = ([], None)"
    by (simp add: ReconcileEtcdMembers_def reconcileEtcdMember_def NewAggregate_def Let_def
          call_defs fake_defs)
  show ?thesis
    using p1 d2 skip1 skip2 run1 run2 run3 visit run4 by (simp add: call_Close_def fakeWorld_def)
qed

subsection \<open>Names reported more than once\<close>



subsection \<open>Idempotence of the direct removal\<close>

text \<open>
  Claim C7. In \<open>removeMemberForNonExistingNode\<close>, once the members are listed: when no
  listed member has the target as its derived name, the call returns nil after closing the
  client, and it has issued no \<open>RemoveMember\<close>. And on Nodes \<open>a\<close> and \<open>b\<close> with members
  \<open>a\<close>, \<open>b\<close> and \<open>c\<close>: \<open>ReconcileEtcdMembers\<close> on \<open>[a, b]\<close> returns \<open>[c]\<close> and no
  error and leaves the members \<open>a\<close> and \<open>b\<close>; the same call made again returns no name
  and no error, issues no \<open>RemoveMember\<close> (and no other call than acquiring, listing and
  closing per node), and leaves the members as they are.
\<close>

theorem removeMemberForNonExistingNode_idempotent:
  "(call_getControlPlaneNodes w r = (Inr items, ra) \<and> 2 \<le> length items
      \<and> call_forFirstAvailableNode w (remainingNodes items name) ra = (Inr c, rb)
      \<and> call_Members w c rb = (Inr members, rc)
      \<and> (\<forall>m\<in>set members. NodeNameFromMember w m \<noteq> name)
     \<longrightarrow> removeMemberForNonExistingNode w name r = (None, call_Close w c rc)
       \<and> filter isRemoveMember (snd (snd (removeMemberForNonExistingNode w name r)))
           = filter isRemoveMember (snd r))
   \<and> fst (ReconcileEtcdMembers fakeWorld [''a'', ''b''] (cluster [memberA, memberB, memberC], []))
       = ([''c''], None)
   \<and> fst (snd (ReconcileEtcdMembers fakeWorld [''a'', ''b''] (cluster [memberA, memberB, memberC], [])))
       = cluster [memberA, memberB]
   \<and> ReconcileEtcdMembers fakeWorld [''a'', ''b''] (cluster [memberA, memberB], []) =
       (([], None),
        (cluster [memberA, memberB],
         [ForFirstAvailableNode [''a''],
          ClientMembers \<lparr>client_Endpoint = ''a'', LeaderID = 1\<rparr>,
          ClientClose \<lparr>client_Endpoint = ''a'', LeaderID = 1\<rparr>,
          ForFirstAvailableNode [''b''],
          ClientMembers \<lparr>client_Endpoint = ''b'', LeaderID = 1\<rparr>,
          ClientClose \<lparr>client_Endpoint = ''b'', LeaderID = 1\<rparr>]))"
proof (intro conjI impI)
  assume h: "call_getControlPlaneNodes w r = (Inr items, ra) \<and> 2 \<le> length items
      \<and> call_forFirstAvailableNode w (remainingNodes items name) ra = (Inr c, rb)
      \<and> call_Members w c rb = (Inr members, rc)
      \<and> (\<forall>m\<in>set members. NodeNameFromMember w m \<noteq> name)"
  then have n: "MemberForName w members name = None"
    by (simp add: MemberForName_None)
  show res: "removeMemberForNonExistingNode w name r = (None, call_Close w c rc)"
    using h n by (simp add: removeMemberForNonExistingNode_def)
  have "snd (call_Close w c rc) =
          snd r @ [GetControlPlaneNodes, ForFirstAvailableNode (remainingNodes items name),
                    ClientMembers c, ClientClose c]"
    using h call_trace(1) [of w r "Inr items" ra]
      call_trace(2) [of w "remainingNodes items name" ra "Inr c" rb]
      call_trace(4) [of w c rb "Inr members" rc]
    by (simp add: call_trace(9))
  then show "filter isRemoveMember (snd (snd (removeMemberForNonExistingNode w name r)))
           = filter isRemoveMember (snd r)"
    using res by simp
qed (simp_all add: ReconcileEtcdMembers_def reconcileEtcdMember_def
       removeMemberForNonExistingNode_def remainingNodes_def MemberForName_def
       NewAggregate_def Let_def call_defs fake_defs)

theorem removeMemberForNonExistingNode_idempotent_witness:
  "NodeNameFromMember fakeWorld memberA \<noteq> ''c''
   \<and> NodeNameFromMember fakeWorld memberB \<noteq> ''c''
   \<and> removeMemberForNonExistingNode fakeWorld ''c'' (cluster [memberA, memberB], []) =
       (None,
        (cluster [memberA, memberB],
         [GetControlPlaneNodes, ForFirstAvailableNode [''a'', ''b''],
          ClientMembers \<lparr>client_Endpoint = ''a'', LeaderID = 1\<rparr>,
          ClientClose \<lparr>client_Endpoint = ''a'', LeaderID = 1\<rparr>]))"
proof -
  let ?s = "cluster [memberA, memberB]"
  let ?ca = "\<lparr>client_Endpoint = ''a'', LeaderID = 1\<rparr>"
  have h1: "call_getControlPlaneNodes fakeWorld (?s, []) = (Inr [nodeA, nodeB], (?s, [GetControlPlaneNodes]))"
    by (simp add: call_defs fake_defs)
  have h2: "2 \<le> length [nodeA, nodeB]" by simp
  have rem: "remainingNodes [nodeA, nodeB] ''c'' = [''a'', ''b'']"
    by (simp add: remainingNodes_def fake_defs)
  have h3: "call_forFirstAvailableNode fakeWorld (remainingNodes [nodeA, nodeB] ''c'') (?s, [GetControlPlaneNodes]) =
      (Inr ?ca, (?s, [GetControlPlaneNodes, ForFirstAvailableNode [''a'', ''b'']]))"
    unfolding rem by (simp add: call_defs fake_defs)
  have h4: "call_Members fakeWorld ?ca (?s, [GetControlPlaneNodes, ForFirstAvailableNode [''a'', ''b'']]) =
      (Inr [memberA, memberB],
       (?s, [GetControlPlaneNodes, ForFirstAvailableNode [''a'', ''b''], ClientMembers ?ca]))"
    by (simp add: call_defs fake_defs)
  have h5: "\<forall>m\<in>set [memberA, memberB]. NodeNameFromMember fakeWorld m \<noteq> ''c''"
    by (simp add: fake_defs)
  have "removeMemberForNonExistingNode fakeWorld ''c'' (?s, []) =
          (None, call_Close fakeWorld ?ca
             (?s, [GetControlPlaneNodes, ForFirstAvailableNode [''a'', ''b''], ClientMembers ?ca]))"
    using removeMemberForNonExistingNode_idempotent
      [where w = fakeWorld and r = "(?s, [])" and items = "[nodeA, nodeB]"
         and ra = "(?s, [GetControlPlaneNodes])" and name = "''c''" and c = ?ca
         and rb = "(?s, [GetControlPlaneNodes, ForFirstAvailableNode [''a'', ''b'']])"
         and members = "[memberA, memberB]"
         and rc = "(?s, [GetControlPlaneNodes, ForFirstAvailableNode [''a'', ''b''], ClientMembers ?ca])"]
      h1 h2 h3 h4 h5
    by blast
  then show ?thesis using h5 by (simp add: call_Close_def fakeWorld_def)
qed

section \<open>The decommission handshake\<close>

text \<open>
  When a Node of the target name is listed, the loop of lines 162-167 selects a listed
  Node of that name (the last one).
\<close>

lemma findRemovingNode_listed:
  assumes "\<exists>n\<in>set items. node_Name n = name"
  shows "findRemovingNode items name \<in> set items \<and> node_Name (findRemovingNode items name) = name"
  using assms unfolding findRemovingNode_def
  by (induction items rule: rev_induct) auto

text \<open>
  Claim C3, as amended. \<open>removeMemberForNode\<close> on a listing of at least 2 Nodes that has
  a Node of the target name, the Node selected having an allocated annotation map. If the
  map has the key \<open>EtcdRemovedNodeAnnotation\<close>, the call returns \<open>(true, nil)\<close> having
  called only the lister. Otherwise it asks for a patch helper on the Node; if that fails
  it returns \<open>(false, err)\<close> and no patch is issued; if it succeeds, \<open>Patch\<close> is called
  with the Node whose map is the old one with \<open>EtcdRemoveAnnotation\<close> set to \<open>true\<close>,
  every other key as before, and the call returns \<open>(false, nil)\<close> when \<open>Patch\<close> returns
  nil, \<open>(false, err)\<close> otherwise.
\<close>

theorem removeMemberForNode_handshake:
  assumes "call_getControlPlaneNodes w r = (Inr items, ra)"
      and "2 \<le> length items"
      and "\<exists>n\<in>set items. node_Name n = name"
      and "removingNode = findRemovingNode items name"
      and "node_Annotations removingNode = Some annotations"
      and "patched = removingNode\<lparr>node_Annotations := Some (annotations(EtcdRemoveAnnotation \<mapsto> ''true''))\<rparr>"
  shows "removingNode \<in> set items \<and> node_Name removingNode = name
     \<and> (annotations EtcdRemovedNodeAnnotation \<noteq> None \<longrightarrow>
          removeMemberForNode w name r = (Returns (True, None), ra)
          \<and> snd ra = snd r @ [GetControlPlaneNodes])
     \<and> (annotations EtcdRemovedNodeAnnotation = None
          \<and> call_NewHelper w removingNode ra = (Inl err, rb) \<longrightarrow>
          removeMemberForNode w name r =
            (Returns (False, Some (ErrWrap err ''failed to create patch helper for node'')), rb)
          \<and> snd rb = snd r @ [GetControlPlaneNodes, PatchNewHelper removingNode])
     \<and> (annotations EtcdRemovedNodeAnnotation = None
          \<and> call_NewHelper w removingNode ra = (Inr patchHelper, rb)
          \<and> call_Patch w patchHelper patched rb = (perr, rc) \<longrightarrow>
          removeMemberForNode w name r =
            (Returns (False, case perr of None \<Rightarrow> None | Some e \<Rightarrow> Some (ErrWrap e ''failed patch node'')), rc)
          \<and> snd rc = snd r @ [GetControlPlaneNodes, PatchNewHelper removingNode,
                                PatchPatch patchHelper patched]
          \<and> node_Name patched = name
          \<and> annotationsOf patched EtcdRemoveAnnotation = Some ''true''
          \<and> (\<forall>k. k \<noteq> EtcdRemoveAnnotation \<longrightarrow> annotationsOf patched k = annotations k))"
proof -
  have sel: "removingNode \<in> set items \<and> node_Name removingNode = name"
    using assms(3,4) findRemovingNode_listed by blast
  have t1: "snd ra = snd r @ [GetControlPlaneNodes]"
    using assms(1) by (rule call_trace(1))
  have floor: "\<not> length items < 2" using assms(2) by simp
  have a: "annotations EtcdRemovedNodeAnnotation \<noteq> None \<Longrightarrow>
      removeMemberForNode w name r = (Returns (True, None), ra)"
    using assms(1,4,5) floor sel
    by (simp add: removeMemberForNode_def Let_def hasKey_def)
  have b: "annotations EtcdRemovedNodeAnnotation = None \<Longrightarrow>
      call_NewHelper w removingNode ra = (Inl err, rb) \<Longrightarrow>
      removeMemberForNode w name r =
        (Returns (False, Some (ErrWrap err ''failed to create patch helper for node'')), rb)
      \<and> snd rb = snd r @ [GetControlPlaneNodes, PatchNewHelper removingNode]"
    using assms(1,4,5) floor sel t1 call_trace(7) [of w removingNode ra "Inl err" rb]
    by (simp add: removeMemberForNode_def Let_def hasKey_def)
  have c: "annotations EtcdRemovedNodeAnnotation = None \<Longrightarrow>
      call_NewHelper w removingNode ra = (Inr patchHelper, rb) \<Longrightarrow>
      call_Patch w patchHelper patched rb = (perr, rc) \<Longrightarrow>
      removeMemberForNode w name r =
        (Returns (False, case perr of None \<Rightarrow> None | Some e \<Rightarrow> Some (ErrWrap e ''failed patch node'')), rc)
      \<and> snd rc = snd r @ [GetControlPlaneNodes, PatchNewHelper removingNode,
                            PatchPatch patchHelper patched]"
    using assms(1,4,5,6) floor sel t1 call_trace(7) [of w removingNode ra "Inr patchHelper" rb]
      call_trace(8) [of w patchHelper patched rb perr rc]
    by (simp add: removeMemberForNode_def Let_def hasKey_def split: option.splits)
  have d: "node_Name patched = name \<and> annotationsOf patched EtcdRemoveAnnotation = Some ''true''
      \<and> (\<forall>k. k \<noteq> EtcdRemoveAnnotation \<longrightarrow> annotationsOf patched k = annotations k)"
    using assms(6) sel by (simp add: annotationsOf_def)
  show ?thesis using sel t1 a b c d by blast
qed

theorem removeMemberForNode_handshake_witness:
  "removeMemberForNode fakeWorld ''a'' (goneCluster, []) =
     (Returns (True, None), (goneCluster, [GetControlPlaneNodes]))
   \<and> fst (removeMemberForNode fakeWorld ''a'' (cluster [memberA, memberB], [])) = Returns (False, None)
   \<and> snd (snd (removeMemberForNode fakeWorld ''a'' (cluster [memberA, memberB], []))) =
       [GetControlPlaneNodes, PatchNewHelper nodeA,
        PatchPatch \<lparr>helper_before = nodeA\<rparr>
          (nodeA\<lparr>node_Annotations :=
             Some ([''kubernetes.io/hostname'' \<mapsto> ''a'', EtcdRemoveAnnotation \<mapsto> ''true''])\<rparr>)]
   \<and> annotationsOf
        (hd (fake_nodes (fst (snd (removeMemberForNode fakeWorld ''a'' (cluster [memberA, memberB], []))))))
        EtcdRemoveAnnotation = Some ''true''
   \<and> annotationsOf
        (hd (fake_nodes (fst (snd (removeMemberForNode fakeWorld ''a'' (cluster [memberA, memberB], []))))))
        ''kubernetes.io/hostname'' = Some ''a''"
proof -
  let ?s = "cluster [memberA, memberB]"
  let ?anns = "[''kubernetes.io/hostname'' \<mapsto> ''a'']"
  let ?patched = "nodeA\<lparr>node_Annotations := Some (?anns(EtcdRemoveAnnotation \<mapsto> ''true''))\<rparr>"
  let ?s' = "?s\<lparr>fake_nodes := [mergePatch nodeA ?patched nodeA, nodeB]\<rparr>"
  have g1: "call_getControlPlaneNodes fakeWorld (goneCluster, []) =
      (Inr [nodeGone, nodeB], (goneCluster, [GetControlPlaneNodes]))"
    by (simp add: call_defs fake_defs)
  have g3: "\<exists>n\<in>set [nodeGone, nodeB]. node_Name n = ''a''" by (simp add: fake_defs)
  have g4: "nodeGone = findRemovingNode [nodeGone, nodeB] ''a''"
    by (simp add: findRemovingNode_def fake_defs)
  have g5: "node_Annotations nodeGone = Some [EtcdRemovedNodeAnnotation \<mapsto> ''a'']"
    by (simp add: fake_defs)
  have gone: "removeMemberForNode fakeWorld ''a'' (goneCluster, []) =
     (Returns (True, None), (goneCluster, [GetControlPlaneNodes]))"
    using removeMemberForNode_handshake
      [where w = fakeWorld and r = "(goneCluster, [])" and items = "[nodeGone, nodeB]"
         and ra = "(goneCluster, [GetControlPlaneNodes])" and name = "''a''"
         and removingNode = nodeGone and annotations = "[EtcdRemovedNodeAnnotation \<mapsto> ''a'']",
       OF g1 _ g3 g4 g5 refl]
    by simp
  have h1: "call_getControlPlaneNodes fakeWorld (?s, []) =
      (Inr [nodeA, nodeB], (?s, [GetControlPlaneNodes]))"
    by (simp add: call_defs fake_defs)
  have h3: "\<exists>n\<in>set [nodeA, nodeB]. node_Name n = ''a''" by (simp add: fake_defs)
  have h4: "nodeA = findRemovingNode [nodeA, nodeB] ''a''"
    by (simp add: findRemovingNode_def fake_defs)
  have h5: "node_Annotations nodeA = Some ?anns" by (simp add: fake_defs)
  have h6: "?anns EtcdRemovedNodeAnnotation = None"
    by (simp add: EtcdRemovedNodeAnnotation_def)
  have h7: "call_NewHelper fakeWorld nodeA (?s, [GetControlPlaneNodes]) =
      (Inr \<lparr>helper_before = nodeA\<rparr>, (?s, [GetControlPlaneNodes, PatchNewHelper nodeA]))"
    by (simp add: call_defs fakeWorld_def cluster_def)
  have h8: "call_Patch fakeWorld \<lparr>helper_before = nodeA\<rparr> ?patched
              (?s, [GetControlPlaneNodes, PatchNewHelper nodeA]) =
      (None, (?s', [GetControlPlaneNodes, PatchNewHelper nodeA,
                    PatchPatch \<lparr>helper_before = nodeA\<rparr> ?patched]))"
    by (simp add: call_defs fakeWorld_def cluster_def fake_patch_def nodeA_def nodeB_def)
  have req: "removeMemberForNode fakeWorld ''a'' (?s, []) =
      (Returns (False, None),
       (?s', [GetControlPlaneNodes, PatchNewHelper nodeA,
              PatchPatch \<lparr>helper_before = nodeA\<rparr> ?patched]))"
    using removeMemberForNode_handshake
      [where w = fakeWorld and r = "(?s, [])" and items = "[nodeA, nodeB]"
         and ra = "(?s, [GetControlPlaneNodes])" and name = "''a''"
         and removingNode = nodeA and annotations = ?anns and patched = ?patched
         and patchHelper = "\<lparr>helper_before = nodeA\<rparr>"
         and rb = "(?s, [GetControlPlaneNodes, PatchNewHelper nodeA])"
         and perr = None
         and rc = "(?s', [GetControlPlaneNodes, PatchNewHelper nodeA,
                          PatchPatch \<lparr>helper_before = nodeA\<rparr> ?patched])",
       OF h1 _ h3 h4 h5 refl]
      h6 h7 h8
    by simp
  have m1: "annotationsOf (mergePatch nodeA ?patched nodeA) EtcdRemoveAnnotation = Some ''true''"
    by (simp add: mergePatch_def annotationsOf_def nodeA_def EtcdRemoveAnnotation_def)
  have m2: "annotationsOf (mergePatch nodeA ?patched nodeA) ''kubernetes.io/hostname'' = Some ''a''"
    by (simp add: mergePatch_def annotationsOf_def nodeA_def EtcdRemoveAnnotation_def)
  show ?thesis using gone req m1 m2 by simp
qed

text \<open>
  The claim as stated fails when the patch helper cannot be created: Node \<open>a\<close> is listed
  with \<open>b\<close> and has no acknowledgment, yet the annotation is not set and no patch is
  issued. It also fails on a Node without an annotation map, where the assignment panics
  once the helper is there.
\<close>

theorem removeMemberForNode_handshake_counterexample:
  "2 \<le> length (fake_nodes helperlessCluster)
   \<and> findRemovingNode (fake_nodes helperlessCluster) ''a'' = nodeA
   \<and> \<not> hasKey (node_Annotations nodeA) EtcdRemovedNodeAnnotation
   \<and> fst (removeMemberForNode fakeWorld ''a'' (helperlessCluster, [])) =
       Returns (False, Some (ErrWrap (ErrCollaborator ''no kind is registered'')
                               ''failed to create patch helper for node''))
   \<and> snd (snd (removeMemberForNode fakeWorld ''a'' (helperlessCluster, []))) =
       [GetControlPlaneNodes, PatchNewHelper nodeA]
   \<and> fake_nodes (fst (snd (removeMemberForNode fakeWorld ''a'' (helperlessCluster, [])))) =
       [nodeA, nodeB]
   \<and> 2 \<le> length (fake_nodes bareCluster)
   \<and> findRemovingNode (fake_nodes bareCluster) ''a'' = nodeBare
   \<and> \<not> hasKey (node_Annotations nodeBare) EtcdRemovedNodeAnnotation
   \<and> removeMemberForNode fakeWorld ''a'' (bareCluster, []) =
       (Panics ''assignment to entry in nil map'',
        (bareCluster, [GetControlPlaneNodes, PatchNewHelper nodeBare]))"
  by (simp add: removeMemberForNode_def findRemovingNode_def zeroNode_def hasKey_def Let_def
        EtcdRemovedNodeAnnotation_def call_defs fake_defs)

end
